theory Spec2Isabelle
  imports Main
begin

section \<open>Go library functions the program calls\<close>

text \<open>
  The command (\<^verbatim>\<open>src/unnamed/part_000\<close>, package zscp) and its library
  (\<^verbatim>\<open>src/zsshlib/ssh.go\<close>) are modelled as functions over an explicit environment and an
  explicit trace of the effects they perform. The functions of the Go standard library they
  call are written out here, for slash-separated paths.
\<close>

text \<open>\<^verbatim>\<open>strings.Split(s, sep)\<close> for a one-character separator: every occurrence splits, and
  the result always has at least one element.\<close>

fun Split :: "string \<Rightarrow> char \<Rightarrow> string list" where
  "Split [] sep = [[]]"
| "Split (c # cs) sep =
     (if c = sep then [] # Split cs sep
      else (case Split cs sep of [] \<Rightarrow> [[c]] | w # ws \<Rightarrow> (c # w) # ws))"

text \<open>\<^verbatim>\<open>strings.ContainsAny(s, chars)\<close> and \<^verbatim>\<open>strings.Contains(s, c)\<close> for a
  one-character substring.\<close>

definition ContainsAny :: "string \<Rightarrow> string \<Rightarrow> bool" where
  "ContainsAny s chars = list_ex (\<lambda>c. c \<in> set chars) s"

definition Contains :: "string \<Rightarrow> char \<Rightarrow> bool" where
  "Contains s c = (c \<in> set s)"

text \<open>Indexing a slice, \<^verbatim>\<open>xs[i]\<close>: out of range is a run-time panic, here \<open>None\<close>.\<close>

definition index :: "'a list \<Rightarrow> nat \<Rightarrow> 'a option" where
  "index xs i = (if i < length xs then Some (xs ! i) else None)"

text \<open>\<^verbatim>\<open>strings.Join(elems, "/")\<close>.\<close>

fun JoinSep :: "string list \<Rightarrow> string" where
  "JoinSep [] = []"
| "JoinSep [e] = e"
| "JoinSep (e # es) = e @ ''/'' @ JoinSep es"

text \<open>\<^verbatim>\<open>filepath.Clean\<close>: empty and \<^verbatim>\<open>.\<close> elements are dropped, an inner \<^verbatim>\<open>..\<close>
  removes the element before it, a \<^verbatim>\<open>..\<close> at the start of a rooted path is dropped, and
  the empty result is \<^verbatim>\<open>.\<close>. The elements are kept on a stack, last element first.\<close>

fun cleanStep :: "bool \<Rightarrow> string list \<Rightarrow> string \<Rightarrow> string list" where
  "cleanStep rooted stack c =
     (if c = [] \<or> c = ''.'' then stack
      else if c = ''..'' then
        (case stack of
           [] \<Rightarrow> if rooted then [] else [''..'']
         | t # ts \<Rightarrow> if t = ''..'' then ''..'' # stack else ts)
      else c # stack)"

definition Clean :: "string \<Rightarrow> string" where
  "Clean p =
     (if p = [] then ''.''
      else
        let rooted = (hd p = CHR ''/'');
            body = JoinSep (rev (foldl (cleanStep rooted) [] (Split p (CHR ''/''))))
        in if rooted then ''/'' @ body
           else if body = [] then ''.'' else body)"

text \<open>\<^verbatim>\<open>filepath.Join(a, b)\<close>: the elements from the first non-empty one on are joined with
  a slash and cleaned; all empty gives the empty string.\<close>

definition Join :: "string \<Rightarrow> string \<Rightarrow> string" where
  "Join a b =
     (if a \<noteq> [] then Clean (a @ ''/'' @ b)
      else if b \<noteq> [] then Clean b
      else [])"

definition Join3 :: "string \<Rightarrow> string \<Rightarrow> string \<Rightarrow> string" where
  "Join3 a b c =
     (if a \<noteq> [] then Clean (a @ ''/'' @ b @ ''/'' @ c)
      else Join b c)"

text \<open>\<^verbatim>\<open>filepath.Base\<close>: trailing slashes are stripped and the last element is returned;
  the empty path gives \<^verbatim>\<open>.\<close> and a path of slashes only gives \<^verbatim>\<open>/\<close>.\<close>

definition Base :: "string \<Rightarrow> string" where
  "Base p =
     (if p = [] then ''.''
      else
        let stripped = rev (dropWhile (\<lambda>c. c = CHR ''/'') (rev p));
            last_elem = rev (takeWhile (\<lambda>c. c \<noteq> CHR ''/'') (rev stripped))
        in if last_elem = [] then ''/'' else last_elem)"

section \<open>Errors, outcomes and the trace of effects\<close>

text \<open>
  A Go \<^verbatim>\<open>error\<close> value. What the program looks at is the dynamic type (in a type
  assertion), the text (\<^verbatim>\<open>err.Error()\<close>) and the identity of the two sentinels of
  \<^verbatim>\<open>io/fs\<close>. \<open>ErrorString\<close> stands for every dynamic type that is not
  \<^verbatim>\<open>*ssh.PassphraseMissingError\<close> (\<open>NilPassphraseMissingError\<close> is a nil pointer of
  that type held in the interface); \<open>Errorf\<close> and \<open>Wrapf\<close> are the wrappers built by
  \<^verbatim>\<open>fmt.Errorf("... %w ...", err)\<close> (the formatted text before and after the wrapped
  error) and \<^verbatim>\<open>errors.Wrapf(err, "...")\<close> (the formatted message).
\<close>

datatype go_error =
    ErrorString string
  | PassphraseMissingError
  | NilPassphraseMissingError
  | Errorf string go_error string
  | Wrapf go_error string
  | SkipDir
  | SkipAll

fun Error :: "go_error \<Rightarrow> string" where
  "Error (ErrorString s) = s"
| "Error PassphraseMissingError = ''ssh: this private key is passphrase protected''"
| "Error NilPassphraseMissingError = ''ssh: this private key is passphrase protected''"
| "Error (Errorf before e after) = before @ Error e @ after"
| "Error (Wrapf e ctx) = ctx @ '': '' @ Error e"
| "Error SkipDir = ''skip this directory''"
| "Error SkipAll = ''skip everything and stop the walk''"

text \<open>An authentication method offered to the secure-shell handshake.\<close>

datatype auth_method = PublicKeys string | AgentKeys string | NilMethod

text \<open>An argument of a logging call: a string or an error value.\<close>

datatype msg = Str string | Err go_error

text \<open>
  The effects of one invocation, in the order they happen. Calls that can fail carry their
  result (\<open>None\<close> is a nil error).
\<close>

datatype event =
    LogInfo string
  | LogError go_error
  | LogFatal "msg list"
  | EvDialService string string "go_error option"
  | EvCloseService
  | EvReadFile string "go_error option"
  | EvParseKey "go_error option"
  | EvAgentProbe "auth_method option"
  | EvSshDial string "auth_method list" "go_error option"
  | EvNewClient "go_error option"
  | EvCloseClient
  | EvMkdir string "go_error option"
  | EvOpenFile string "go_error option"
  | EvWrite string string "go_error option"
  | EvCloseFile string
  | EvOpenRemote string "go_error option"
  | EvOpenLocal string "go_error option"
  | EvCopy string string "go_error option"
  | EvCloseRemote string
  | EvCloseLocal string
  | EvLstatRemote string

text \<open>
  How a call ends: it returns a value, the process exits through \<^verbatim>\<open>logrus.Fatal\<close> or
  \<^verbatim>\<open>log.Fatalf\<close> (\<^verbatim>\<open>os.Exit(1)\<close>, which runs no deferred function), or it panics.
\<close>

datatype 'a step = Cont 'a | Fatal | Panic

text \<open>A local filesystem entry as \<^verbatim>\<open>filepath.WalkDir\<close> sees it: a file (anything whose
  \<^verbatim>\<open>IsDir()\<close> is false) or a directory with the entries \<^verbatim>\<open>os.ReadDir\<close> returns, sorted
  by name, and the error it returns with them.\<close>

datatype fsnode = File | Dir "(string \<times> fsnode) list" "go_error option"

text \<open>
  The environment of an invocation. The answers of the remote side and of the key agent may
  depend on everything that happened before, so they take the trace so far.
\<close>

record env =
  os_UserHomeDir :: "go_error + string"
  user_Current :: "go_error + string"
  runtime_GOOS :: string
  config_NewFromFile :: "string \<Rightarrow> go_error option"
  ctx_GetService :: "string \<Rightarrow> bool"
  ctx_DialWithOptions :: "string \<Rightarrow> string \<Rightarrow> go_error option"
  ioutil_ReadFile :: "string \<Rightarrow> go_error + string"
  ssh_ParsePrivateKey :: "string \<Rightarrow> go_error + string"
  agent_probe :: "event list \<Rightarrow> auth_method option"
  ssh_NewClientConn :: "string \<Rightarrow> auth_method list \<Rightarrow> go_error option"
  sftp_NewClient :: "go_error option"
  os_Lstat :: "string \<Rightarrow> go_error + fsnode"
  client_Mkdir :: "event list \<Rightarrow> string \<Rightarrow> go_error option"
  client_OpenFile :: "event list \<Rightarrow> string \<Rightarrow> go_error option"
  rmtFile_Write :: "event list \<Rightarrow> string \<Rightarrow> string \<Rightarrow> go_error option"
  client_Open :: "event list \<Rightarrow> string \<Rightarrow> go_error option"
  os_OpenFile :: "string \<Rightarrow> go_error option"
  io_Copy :: "event list \<Rightarrow> string \<Rightarrow> string \<Rightarrow> go_error option"
  client_Lstat :: "event list \<Rightarrow> string \<Rightarrow> go_error + bool"

section \<open>The command: flags and the interpretation of the two arguments\<close>

record flags =
  ZConfig :: string
  SshKeyPath :: string
  debug :: bool
  recursive :: bool

definition ExpectedServiceAndExeName :: string where
  "ExpectedServiceAndExeName = ''zssh''"

text \<open>Lines 63 to 74 of the command: which argument is the remote one. The result is
  (remoteFilePath, localFilePath, isCopyToRemote); \<open>None\<close> is the fatal
  \<^verbatim>\<open>cannot determine remote file PATH\<close>.\<close>

definition detectDirection :: "string \<Rightarrow> string \<Rightarrow> (string \<times> string \<times> bool) option" where
  "detectDirection arg0 arg1 =
     (if ContainsAny arg0 '':'' then Some (arg0, arg1, False)
      else if ContainsAny arg1 '':'' then Some (arg1, arg0, True)
      else None)"

text \<open>The values the interpretation hands to the rest of the run.\<close>

record endpoint =
  username :: string
  targetIdentity :: string
  remoteFilePath :: string
  localFilePath :: string
  isCopyToRemote :: bool

text \<open>Lines 76 to 94: the remote argument is split at its colons and its prefix at its
  at-signs; without an at-sign the user is the current OS user. \<open>arg0\<close> is
  \<^verbatim>\<open>args[0]\<close>.\<close>

definition parseRemote ::
  "env \<Rightarrow> string \<Rightarrow> string \<Rightarrow> (string \<times> string \<times> string) step \<times> event list" where
  "parseRemote e arg0 remoteArg =
     (let fullRemoteFilePath = Split remoteArg (CHR '':'') in
      case index fullRemoteFilePath 1 of
        None \<Rightarrow> (Panic, [])
      | Some rpath \<Rightarrow>
          (case index fullRemoteFilePath 0 of
             None \<Rightarrow> (Panic, [])
           | Some prefix \<Rightarrow>
               if ContainsAny prefix ''@'' then
                 (let userServiceName = Split prefix (CHR ''@'') in
                  case index userServiceName 0 of
                    None \<Rightarrow> (Panic, [])
                  | Some u \<Rightarrow>
                      (case index userServiceName 1 of
                         None \<Rightarrow> (Panic, [])
                       | Some t \<Rightarrow> (Cont (u, t, rpath), [])))
               else
                 (case user_Current e of
                    Inl err \<Rightarrow> (Fatal, [LogFatal [Err err]])
                  | Inr curUser \<Rightarrow>
                      if Contains curUser (CHR 0x5C) \<and> runtime_GOOS e = ''windows'' then
                        (case index (Split curUser (CHR 0x5C)) 1 of
                           None \<Rightarrow> (Panic, [])
                         | Some u \<Rightarrow> (Cont (u, arg0, rpath), []))
                      else (Cont (curUser, arg0, rpath), []))))"

text \<open>The message of the fatal exit at line 73.\<close>

definition cannotDetermine :: string where
  "cannotDetermine =
     ''cannot determine remote file PATH use '' @ [CHR 0x22] @ '':'' @ [CHR 0x22] @
     '' for remote path''"

text \<open>Lines 57 to 94 together.\<close>

definition interpretArgs :: "env \<Rightarrow> string \<Rightarrow> string \<Rightarrow> endpoint step \<times> event list" where
  "interpretArgs e arg0 arg1 =
     (case detectDirection arg0 arg1 of
        None \<Rightarrow> (Fatal, [LogFatal [Str cannotDetermine]])
      | Some (remoteArg, localArg, toRemote) \<Rightarrow>
          (case parseRemote e arg0 remoteArg of
             (Cont (u, t, rpath), tr) \<Rightarrow>
               (Cont \<lparr>username = u, targetIdentity = t, remoteFilePath = rpath,
                      localFilePath = localArg, isCopyToRemote = toRemote\<rparr>, tr)
           | (Fatal, tr) \<Rightarrow> (Fatal, tr)
           | (Panic, tr) \<Rightarrow> (Panic, tr)))"

section \<open>The library: credential resolution\<close>

text \<open>\<^verbatim>\<open>sshAuthMethodFromFile\<close> (ssh.go, lines 262 to 279). The type assertion
  \<^verbatim>\<open>err.(*ssh.PassphraseMissingError)\<close> has no second result, so it panics on every
  error of another dynamic type; on a pointer of that type it yields the pointer, which is
  then compared with nil.\<close>

definition sshAuthMethodFromFile ::
  "env \<Rightarrow> string \<Rightarrow> event list \<Rightarrow> (go_error + auth_method) step \<times> event list" where
  "sshAuthMethodFromFile e kp tr =
     (case ioutil_ReadFile e kp of
        Inl err \<Rightarrow>
          (Cont (Inl (Errorf (''could not read zssh file ['' @ kp @ '']: '') err [])),
           tr @ [EvReadFile kp (Some err)])
      | Inr content \<Rightarrow>
          (let tr1 = tr @ [EvReadFile kp None] in
           case ssh_ParsePrivateKey e content of
             Inr signer \<Rightarrow> (Cont (Inr (PublicKeys signer)), tr1 @ [EvParseKey None])
           | Inl err \<Rightarrow>
               (let tr2 = tr1 @ [EvParseKey (Some err)] in
                if Error err = ''zssh: no key found'' then
                  (Cont (Inl (Errorf (''no private key found in ['' @ kp @ '']: '') err [])), tr2)
                else
                  (case err of
                     PassphraseMissingError \<Rightarrow>
                       (Cont (Inl (Errorf (''file is password protected ['' @ kp @ ''] '') err
                                 [])), tr2)
                   | NilPassphraseMissingError \<Rightarrow>
                       (Cont (Inl (Errorf (''error parsing private key from ['' @ kp @ '']L '')
                                 err [])), tr2)
                   | _ \<Rightarrow> (Panic, tr2)))))"

record SshConfigFactoryImpl =
  user :: string
  host :: string
  port :: int
  keyPath :: string
  resolveAuthOnce :: bool
  authMethods :: "auth_method list"

record ClientConfig =
  User :: string
  Auth :: "auth_method list"

definition NewSshConfigFactoryImpl :: "string \<Rightarrow> string \<Rightarrow> SshConfigFactoryImpl" where
  "NewSshConfigFactoryImpl u kp =
     \<lparr>user = u, host = [], port = 22, keyPath = kp, resolveAuthOnce = False, authMethods = []\<rparr>"

text \<open>The body handed to \<^verbatim>\<open>resolveAuthOnce.Do\<close> (lines 238 to 252).
  \<^verbatim>\<open>sshAuthMethodAgent\<close> is not among the sources; every call of it is one probe of the
  agent, answered by the environment. A nil method returned by the second call is appended
  as it is (\<open>NilMethod\<close>).\<close>

definition resolveAuth ::
  "env \<Rightarrow> string \<Rightarrow> event list \<Rightarrow> (auth_method list) step \<times> event list" where
  "resolveAuth e kp tr =
     (case sshAuthMethodFromFile e kp tr of
        (Panic, tr1) \<Rightarrow> (Panic, tr1)
      | (Fatal, tr1) \<Rightarrow> (Fatal, tr1)
      | (Cont r, tr1) \<Rightarrow>
          (let methods1 = (case r of Inr fileMethod \<Rightarrow> [fileMethod] | Inl err \<Rightarrow> []);
               tr2 = (case r of Inr fileMethod \<Rightarrow> tr1 | Inl err \<Rightarrow> tr1 @ [LogError err]);
               agentMethod = agent_probe e tr2;
               tr3 = tr2 @ [EvAgentProbe agentMethod]
           in case agentMethod of
                None \<Rightarrow> (Cont methods1, tr3)
              | Some m \<Rightarrow>
                  (let again = agent_probe e tr3 in
                   (Cont (methods1 @ [case again of None \<Rightarrow> NilMethod | Some m2 \<Rightarrow> m2]),
                    tr3 @ [EvAgentProbe again]))))"

text \<open>\<^verbatim>\<open>Config\<close> (lines 236 to 260): the body runs only while the once-flag is unset.\<close>

definition Config ::
  "env \<Rightarrow> SshConfigFactoryImpl \<Rightarrow> event list \<Rightarrow>
   (ClientConfig \<times> SshConfigFactoryImpl) step \<times> event list" where
  "Config e factory tr =
     (if resolveAuthOnce factory then
        (Cont (\<lparr>User = user factory, Auth = authMethods factory\<rparr>, factory), tr)
      else
        (case resolveAuth e (keyPath factory) tr of
           (Panic, tr1) \<Rightarrow> (Panic, tr1)
         | (Fatal, tr1) \<Rightarrow> (Fatal, tr1)
         | (Cont methods, tr1) \<Rightarrow>
             (let factory1 = factory\<lparr>resolveAuthOnce := True, authMethods := methods\<rparr>
              in (Cont (\<lparr>User = user factory1, Auth = authMethods factory1\<rparr>, factory1),
                  tr1))))"

section \<open>The library: single-file transfers\<close>

text \<open>\<^verbatim>\<open>SendFile\<close> (lines 281 to 301). On a failed read the wrapped message formats the
  nil byte slice, which prints as \<^verbatim>\<open>[]\<close>. The deferred close of the remote file runs on
  both returns after the open.\<close>

definition SendFile ::
  "env \<Rightarrow> string \<Rightarrow> string \<Rightarrow> event list \<Rightarrow> go_error option \<times> event list" where
  "SendFile e localPath remotePath tr =
     (case ioutil_ReadFile e localPath of
        Inl err \<Rightarrow>
          (Some (Wrapf err ''unable to read local file []''),
           tr @ [EvReadFile localPath (Some err)])
      | Inr localFile \<Rightarrow>
          (let tr1 = tr @ [EvReadFile localPath None] in
           case client_OpenFile e tr1 remotePath of
             Some err \<Rightarrow>
               (Some (Wrapf err (''unable to open remote file '' @ remotePath)),
                tr1 @ [EvOpenFile remotePath (Some err)])
           | None \<Rightarrow>
               (let tr2 = tr1 @ [EvOpenFile remotePath None];
                    w = rmtFile_Write e tr2 remotePath localFile
                in (w, tr2 @ [EvWrite remotePath localFile w, EvCloseFile remotePath]))))"

text \<open>\<^verbatim>\<open>RetrieveRemoteFiles\<close> (lines 303 to 324).\<close>

definition RetrieveRemoteFiles ::
  "env \<Rightarrow> string \<Rightarrow> string \<Rightarrow> event list \<Rightarrow> go_error option \<times> event list" where
  "RetrieveRemoteFiles e localPath remotePath tr =
     (case client_Open e tr remotePath of
        Some err \<Rightarrow>
          (Some (Errorf (''error opening remote file ['' @ remotePath @ ''] ('') err '')''),
           tr @ [EvOpenRemote remotePath (Some err)])
      | None \<Rightarrow>
          (let tr1 = tr @ [EvOpenRemote remotePath None] in
           case os_OpenFile e localPath of
             Some err \<Rightarrow>
               (Some (Errorf (''error opening local file ['' @ localPath @ ''] ('') err '')''),
                tr1 @ [EvOpenLocal localPath (Some err), EvCloseRemote remotePath])
           | None \<Rightarrow>
               (let tr2 = tr1 @ [EvOpenLocal localPath None];
                    c = io_Copy e tr2 remotePath localPath;
                    tr3 = tr2 @ [EvCopy remotePath localPath c]
                in case c of
                     Some err \<Rightarrow>
                       (Some (Errorf (''error copying remote file to local ['' @ remotePath @
                                      ''] ('') err '')''),
                        tr3 @ [EvCloseLocal localPath, EvCloseRemote remotePath])
                   | None \<Rightarrow>
                       (None,
                        tr3 @ [LogInfo (remotePath @ '' => '' @ localPath),
                               EvCloseLocal localPath, EvCloseRemote remotePath]))))"

text \<open>\<^verbatim>\<open>AppendBaseName\<close> (lines 374 to 387).\<close>

definition AppendBaseName ::
  "env \<Rightarrow> string \<Rightarrow> string \<Rightarrow> bool \<Rightarrow> event list \<Rightarrow> string \<times> event list" where
  "AppendBaseName e remotePath localPath dbg tr =
     (let localBase = Base localPath in
      if remotePath = [] then (Base localBase, tr)
      else
        (let r = client_Lstat e tr remotePath;
             tr1 = tr @ [EvLstatRemote remotePath]
         in case r of
              Inr True \<Rightarrow> (Join remotePath localBase, tr1)
            | _ \<Rightarrow>
                if dbg then
                  (remotePath,
                   tr1 @ [LogInfo (''Remote File/Directory: '' @ remotePath @ '' doesn'' @
                            [CHR 0x27] @ ''t exist ['' @
                            (case r of Inl err \<Rightarrow> Error err | Inr b \<Rightarrow> ''<nil>'') @ '']'')])
                else (remotePath, tr1)))"

section \<open>The command: the recursive walk\<close>

text \<open>The function handed to \<^verbatim>\<open>filepath.WalkDir\<close> (part_000, lines 131 to 149).
  \<open>info\<close> is the directory entry: \<open>None\<close> is the nil entry, \<open>Some b\<close> an entry whose
  \<^verbatim>\<open>IsDir()\<close> is \<open>b\<close>. The third parameter \<open>werr\<close> is the error the walker passes in; the
  body never reads it. Calling \<^verbatim>\<open>IsDir\<close> on the nil entry panics.\<close>

definition walkFn ::
  "env \<Rightarrow> bool \<Rightarrow> string \<Rightarrow> string \<Rightarrow> bool option \<Rightarrow> go_error option \<Rightarrow> event list \<Rightarrow>
   (go_error option) step \<times> event list" where
  "walkFn e dbg rfp path info werr tr =
     (let remoteDestination = Join rfp (Base path) in
      case info of
        None \<Rightarrow> (Panic, tr)
      | Some True \<Rightarrow>
          (let r = client_Mkdir e tr remoteDestination;
               tr1 = tr @ [EvMkdir remoteDestination r]
           in case r of
                Some err \<Rightarrow> (Cont None, tr1 @ [LogError err])
              | None \<Rightarrow>
                  (Cont None,
                   if dbg then tr1 @ [LogInfo (''made directory: '' @ remoteDestination)]
                   else tr1))
      | Some False \<Rightarrow>
          (case SendFile e path remoteDestination tr of
             (Some err, tr1) \<Rightarrow> (Cont (Some err), tr1)
           | (None, tr1) \<Rightarrow>
               (Cont None,
                if dbg then tr1 @ [LogInfo (''sent file: '' @ path @ '' ==> '' @
                                            remoteDestination)]
                else tr1)))"

text \<open>\<^verbatim>\<open>filepath.walkDir\<close> of the Go standard library: the function is called on the
  entry; on a directory that it accepts, a failed \<^verbatim>\<open>ReadDir\<close> is reported by a second
  call, and then the entries read are walked in order. \<^verbatim>\<open>SkipDir\<close> from the function ends
  the directory without error; any other error ends the walk.\<close>

fun walkDir ::
  "(string \<Rightarrow> bool option \<Rightarrow> go_error option \<Rightarrow> event list \<Rightarrow>
      (go_error option) step \<times> event list) \<Rightarrow>
   string \<Rightarrow> fsnode \<Rightarrow> event list \<Rightarrow> (go_error option) step \<times> event list"
and walkEntries ::
  "(string \<Rightarrow> bool option \<Rightarrow> go_error option \<Rightarrow> event list \<Rightarrow>
      (go_error option) step \<times> event list) \<Rightarrow>
   string \<Rightarrow> (string \<times> fsnode) list \<Rightarrow> event list \<Rightarrow> (go_error option) step \<times> event list"
where
  "walkDir fn path File tr = fn path (Some False) None tr"
| "walkDir fn path (Dir dirs rerr) tr =
     (case fn path (Some True) None tr of
        (Cont None, tr1) \<Rightarrow>
          (case rerr of
             None \<Rightarrow> walkEntries fn path dirs tr1
           | Some re \<Rightarrow>
               (case fn path (Some True) (Some re) tr1 of
                  (Cont None, tr2) \<Rightarrow> walkEntries fn path dirs tr2
                | (Cont (Some err), tr2) \<Rightarrow>
                    (Cont (if err = SkipDir then None else Some err), tr2)
                | (Fatal, tr2) \<Rightarrow> (Fatal, tr2)
                | (Panic, tr2) \<Rightarrow> (Panic, tr2)))
      | (Cont (Some err), tr1) \<Rightarrow> (Cont (if err = SkipDir then None else Some err), tr1)
      | (Fatal, tr1) \<Rightarrow> (Fatal, tr1)
      | (Panic, tr1) \<Rightarrow> (Panic, tr1))"
| "walkEntries fn path [] tr = (Cont None, tr)"
| "walkEntries fn path (d1 # rest) tr =
     (case walkDir fn (Join path (fst d1)) (snd d1) tr of
        (Cont None, tr1) \<Rightarrow> walkEntries fn path rest tr1
      | (Cont (Some err), tr1) \<Rightarrow> (Cont (if err = SkipDir then None else Some err), tr1)
      | (Fatal, tr1) \<Rightarrow> (Fatal, tr1)
      | (Panic, tr1) \<Rightarrow> (Panic, tr1))"

text \<open>\<^verbatim>\<open>filepath.WalkDir\<close>: the root is looked up first; when that fails the function is
  called once with the nil entry and the error. The two sentinels are not returned.\<close>

definition WalkDir ::
  "env \<Rightarrow>
   (string \<Rightarrow> bool option \<Rightarrow> go_error option \<Rightarrow> event list \<Rightarrow>
      (go_error option) step \<times> event list) \<Rightarrow>
   string \<Rightarrow> event list \<Rightarrow> (go_error option) step \<times> event list" where
  "WalkDir e fn root tr =
     (case (case os_Lstat e root of
              Inl err \<Rightarrow> fn root None (Some err) tr
            | Inr info \<Rightarrow> walkDir fn root info tr) of
        (Cont (Some err), tr1) \<Rightarrow>
          (Cont (if err = SkipDir \<or> err = SkipAll then None else Some err), tr1)
      | other \<Rightarrow> other)"

section \<open>The command: one invocation\<close>

text \<open>Lines 35 to 55: the defaults of the two path flags.\<close>

definition defaultFlags :: "env \<Rightarrow> flags \<Rightarrow> flags step \<times> event list" where
  "defaultFlags e f =
     (case (if SshKeyPath f = [] then
              (case os_UserHomeDir e of
                 Inl err \<Rightarrow> Inl err
               | Inr userHome \<Rightarrow> Inr (f\<lparr>SshKeyPath := Join3 userHome ''.ssh'' ''id_rsa''\<rparr>))
            else Inr f) of
        Inl err \<Rightarrow> (Fatal, [LogFatal [Err err]])
      | Inr f1 \<Rightarrow>
          (let tr1 = (if debug f1 then [LogInfo (''    sshKeyPath set to: '' @ SshKeyPath f1)]
                      else [])
           in case (if ZConfig f1 = [] then
                      (case os_UserHomeDir e of
                         Inl err \<Rightarrow> Inl err
                       | Inr userHome \<Rightarrow>
                           Inr (f1\<lparr>ZConfig := Join3 userHome ''.ziti''
                                                (ExpectedServiceAndExeName @ ''.json'')\<rparr>))
                    else Inr f1) of
                Inl err \<Rightarrow> (Fatal, tr1 @ [LogFatal [Err err]])
              | Inr f2 \<Rightarrow>
                  (Cont f2,
                   if debug f2 then tr1 @ [LogInfo (''       ZConfig set to: '' @ ZConfig f2)]
                   else tr1)))"

text \<open>Lines 129 to 158: the transfer, once the client is open. The results of the two
  single-file calls are not bound to anything. The download call is written with the
  factory and the stream as its first arguments; the library function takes the client.\<close>

definition transfer :: "env \<Rightarrow> flags \<Rightarrow> endpoint \<Rightarrow> event list \<Rightarrow> unit step \<times> event list" where
  "transfer e f ep tr =
     (if isCopyToRemote ep then
        (if recursive f then
           (case WalkDir e (walkFn e (debug f) (remoteFilePath ep)) (localFilePath ep) tr of
              (Cont None, tr1) \<Rightarrow> (Cont (), tr1)
            | (Cont (Some err), tr1) \<Rightarrow> (Fatal, tr1 @ [LogFatal [Err err]])
            | (Fatal, tr1) \<Rightarrow> (Fatal, tr1)
            | (Panic, tr1) \<Rightarrow> (Panic, tr1))
         else
           (Cont (), snd (SendFile e (localFilePath ep) (remoteFilePath ep) tr)))
      else
        (Cont (), snd (RetrieveRemoteFiles e (localFilePath ep) (remoteFilePath ep) tr)))"

text \<open>Lines 100 to 158: the session and the transfer. The two deferred closes (of the
  client, registered last, then of the stream) run when the function returns or panics, and
  do not run when \<^verbatim>\<open>logrus.Fatal\<close> exits the process. When the handshake fails,
  \<^verbatim>\<open>ssh.NewClientConn\<close>, which \<^verbatim>\<open>zsshlib.Dial\<close> calls (ssh.go, line 104), closes the
  stream it was given before it returns the error; that close is the \<open>EvCloseService\<close> of
  that branch.\<close>

datatype outcome = Returned | Exit1 | Panicked

definition session :: "env \<Rightarrow> flags \<Rightarrow> endpoint \<Rightarrow> event list \<Rightarrow> outcome \<times> event list" where
  "session e f ep tr =
     (case config_NewFromFile e (ZConfig f) of
        Some err \<Rightarrow>
          (Exit1, tr @ [LogFatal [Str ''failed to load ziti configuration file: '', Err err]])
      | None \<Rightarrow>
          if \<not> ctx_GetService e ExpectedServiceAndExeName then
            (Exit1, tr @ [LogFatal
               [Str ''error when retrieving all the services for the provided config'']])
          else
            (let d = ctx_DialWithOptions e ExpectedServiceAndExeName (targetIdentity ep);
                 tr1 = tr @ [EvDialService ExpectedServiceAndExeName (targetIdentity ep) d]
             in case d of
                  Some err \<Rightarrow>
                    (Exit1, tr1 @ [LogFatal
                       [Str (''error when dialing service name '' @ ExpectedServiceAndExeName
                             @ ''. '' @ Error err)]])
                | None \<Rightarrow>
                    (case Config e (NewSshConfigFactoryImpl (username ep) (SshKeyPath f)) tr1 of
                       (Panic, tr2) \<Rightarrow> (Panicked, tr2 @ [EvCloseService])
                     | (Fatal, tr2) \<Rightarrow> (Exit1, tr2)
                     | (Cont (config, factory), tr2) \<Rightarrow>
                         (let c = ssh_NewClientConn e (User config) (Auth config);
                              tr3 = tr2 @ [EvSshDial (User config) (Auth config) c]
                          in case c of
                               Some err \<Rightarrow>
                                 (Exit1,
                                  tr3 @ [EvCloseService,
                                         LogFatal [Err err, Str ''error dialing SSH Conn'']])
                             | None \<Rightarrow>
                                 (let tr4 = tr3 @ [EvNewClient (sftp_NewClient e)] in
                                  case sftp_NewClient e of
                                    Some err \<Rightarrow>
                                      (Exit1, tr4 @ [LogFatal
                                         [Err err, Str ''error creating sftp client'']])
                                  | None \<Rightarrow>
                                      (case transfer e f ep tr4 of
                                         (Cont u, tr5) \<Rightarrow>
                                           (Returned, tr5 @ [EvCloseClient, EvCloseService])
                                       | (Fatal, tr5) \<Rightarrow> (Exit1, tr5)
                                       | (Panic, tr5) \<Rightarrow>
                                           (Panicked,
                                            tr5 @ [EvCloseClient, EvCloseService])))))))"

text \<open>The whole of \<^verbatim>\<open>rootCmd.Run\<close> on its two arguments.\<close>

definition Run :: "env \<Rightarrow> flags \<Rightarrow> string \<Rightarrow> string \<Rightarrow> outcome \<times> event list" where
  "Run e f arg0 arg1 =
     (case defaultFlags e f of
        (Fatal, tr) \<Rightarrow> (Exit1, tr)
      | (Panic, tr) \<Rightarrow> (Panicked, tr)
      | (Cont f1, tr) \<Rightarrow>
          (case interpretArgs e arg0 arg1 of
             (Fatal, tr1) \<Rightarrow> (Exit1, tr @ tr1)
           | (Panic, tr1) \<Rightarrow> (Panicked, tr @ tr1)
           | (Cont ep, tr1) \<Rightarrow>
               session e f1 ep
                 (tr @ tr1 @
                  (if debug f1 then
                     [LogInfo (''      username set to: '' @ username ep),
                      LogInfo (''targetIdentity set to: '' @ targetIdentity ep)]
                   else []))))"

text \<open>An environment in which nothing fails: the user is bob on linux, the service is
  advertised, the key file parses, no agent runs, and the local directory \<^verbatim>\<open>a\<close> holds the
  directory \<^verbatim>\<open>b\<close> with the file \<^verbatim>\<open>y.txt\<close>, and the file \<^verbatim>\<open>x.txt\<close>. Every other local path
  is missing. On the remote side \<^verbatim>\<open>/incoming\<close> is a directory, and neither it nor the
  empty path can be opened for writing.\<close>

definition notExist :: go_error where
  "notExist = ErrorString ''no such file or directory''"

definition treeA :: fsnode where
  "treeA = Dir [(''b'', Dir [(''y.txt'', File)] None), (''x.txt'', File)] None"

definition quietEnv :: env where
  "quietEnv =
     \<lparr>os_UserHomeDir = Inr ''/home/bob'',
      user_Current = Inr ''bob'',
      runtime_GOOS = ''linux'',
      config_NewFromFile = (\<lambda>p. None),
      ctx_GetService = (\<lambda>n. True),
      ctx_DialWithOptions = (\<lambda>n i. None),
      ioutil_ReadFile = (\<lambda>p. if p \<in> {''/home/bob/.ssh/id_rsa'', ''a/x.txt'', ''a/b/y.txt'',
                                       ''notes.txt''}
                              then Inr ''data'' else Inl notExist),
      ssh_ParsePrivateKey = (\<lambda>c. Inr ''key''),
      agent_probe = (\<lambda>tr. None),
      ssh_NewClientConn = (\<lambda>u a. None),
      sftp_NewClient = None,
      os_Lstat = (\<lambda>p. if p = ''a'' then Inr treeA
                       else if p = ''notes.txt'' then Inr File else Inl notExist),
      client_Mkdir = (\<lambda>tr p. None),
      client_OpenFile = (\<lambda>tr p. if p = [] \<or> p = ''/incoming'' then Some notExist else None),
      rmtFile_Write = (\<lambda>tr p c. None),
      client_Open = (\<lambda>tr p. None),
      os_OpenFile = (\<lambda>p. None),
      io_Copy = (\<lambda>tr r l. None),
      client_Lstat = (\<lambda>tr p. if p = ''/incoming'' then Inr True else Inl notExist)\<rparr>"

definition quietFlags :: flags where
  "quietFlags = \<lparr>ZConfig = [], SshKeyPath = [], debug = False, recursive = False\<rparr>"

definition recursiveFlags :: flags where
  "recursiveFlags =
     \<lparr>ZConfig = ''/z.json'', SshKeyPath = ''/home/bob/.ssh/id_rsa'', debug = False,
      recursive = True\<rparr>"

definition uploadA :: endpoint where
  "uploadA =
     \<lparr>username = ''bob'', targetIdentity = ''host1'', remoteFilePath = ''dest'',
      localFilePath = ''a'', isCopyToRemote = True\<rparr>"

text \<open>Variations of it: the remote side refuses to create \<^verbatim>\<open>dest/b\<close> and to open
  \<^verbatim>\<open>dest/y.txt\<close>; the key file holds no key
  (\<^verbatim>\<open>ssh.ParsePrivateKey\<close> then returns the plain error \<^verbatim>\<open>ssh: no key found\<close>); a key
  agent runs.\<close>

definition denied :: go_error where
  "denied = ErrorString ''permission denied''"

definition failEnv :: env where
  "failEnv = quietEnv\<lparr>
     client_Mkdir := (\<lambda>tr p. if p = ''dest/b'' then Some denied else None),
     client_OpenFile := (\<lambda>tr p. if p = ''dest/y.txt'' then Some denied else None)\<rparr>"

definition noKeyEnv :: env where
  "noKeyEnv = quietEnv\<lparr>ssh_ParsePrivateKey := (\<lambda>c. Inl (ErrorString ''ssh: no key found''))\<rparr>"

definition agentEnv :: env where
  "agentEnv = quietEnv\<lparr>agent_probe := (\<lambda>tr. Some (AgentKeys ''agent''))\<rparr>"

section \<open>The recursive upload as the specification describes it\<close>

text \<open>The entries of a local tree in the order of a pre-order walk, each with its
  \<^verbatim>\<open>IsDir()\<close>. A directory whose listing fails is reported to the function a second time,
  so it is listed twice.\<close>

fun preorder :: "string \<Rightarrow> fsnode \<Rightarrow> (string \<times> bool) list"
and preorderEntries :: "string \<Rightarrow> (string \<times> fsnode) list \<Rightarrow> (string \<times> bool) list"
where
  "preorder path File = [(path, False)]"
| "preorder path (Dir dirs rerr) =
     (path, True) # (case rerr of None \<Rightarrow> [] | Some re \<Rightarrow> [(path, True)]) @
     preorderEntries path dirs"
| "preorderEntries path [] = []"
| "preorderEntries path (d1 # rest) =
     preorder (Join path (fst d1)) (snd d1) @ preorderEntries path rest"

text \<open>The failure policy in the specification's words (section 4.4), as a loop over the
  entries one at a time: for a directory the remote directory is created, a creation
  failure is logged and the loop goes on to the next entry; for a file the file is sent, and
  a failure ends the loop at once with that error. The destination of an entry is the one
  the command computes.\<close>

fun specUpload ::
  "env \<Rightarrow> bool \<Rightarrow> string \<Rightarrow> (string \<times> bool) list \<Rightarrow> event list \<Rightarrow>
   go_error option \<times> event list" where
  "specUpload e dbg rfp [] tr = (None, tr)"
| "specUpload e dbg rfp (ent # rest) tr =
     (let dest = Join rfp (Base (fst ent)) in
      if snd ent then
        (let r = client_Mkdir e tr dest in
         specUpload e dbg rfp rest
           (tr @ [EvMkdir dest r] @
            (case r of
               Some err \<Rightarrow> [LogError err]
             | None \<Rightarrow> if dbg then [LogInfo (''made directory: '' @ dest)] else [])))
      else
        (case SendFile e (fst ent) dest tr of
           (Some err, tr1) \<Rightarrow> (Some err, tr1)
         | (None, tr1) \<Rightarrow>
             specUpload e dbg rfp rest
               (if dbg then tr1 @ [LogInfo (''sent file: '' @ fst ent @ '' ==> '' @ dest)]
                else tr1)))"

text \<open>The remote write never fails with one of the two sentinels of the walker: they
  belong to \<^verbatim>\<open>io/fs\<close>, and the file-transfer client does not return them.\<close>

definition writeNoSentinel :: "env \<Rightarrow> bool" where
  "writeNoSentinel e =
     (\<forall>tr p c. rmtFile_Write e tr p c \<noteq> Some SkipDir \<and> rmtFile_Write e tr p c \<noteq> Some SkipAll)"

section \<open>Properties of the interpretation of the arguments\<close>

text \<open>
  C9. Whenever the first argument contains a colon, and so in particular whenever both
  arguments contain one, the first argument is taken as the remote endpoint, the second as
  the local path, and the direction is download; the fatal exit of the direction
  detection is not taken.
\<close>

theorem both_colons_download:
  assumes "CHR '':'' \<in> set arg0" and "CHR '':'' \<in> set arg1"
  shows "detectDirection arg0 arg1 = Some (arg0, arg1, False)"
  using assms by (simp add: detectDirection_def ContainsAny_def list_ex_iff)

theorem both_colons_download_witness:
  "CHR '':'' \<in> set ''h1:/a'' \<and> CHR '':'' \<in> set ''h2:/b'' \<and>
   detectDirection ''h1:/a'' ''h2:/b'' = Some (''h1:/a'', ''h2:/b'', False)"
  using both_colons_download [of "''h1:/a''" "''h2:/b''"] by simp

section \<open>The failure policy of the recursive upload\<close>

lemma SendFile_no_sentinel:
  assumes "writeNoSentinel e"
  shows "fst (SendFile e l r tr) \<noteq> Some SkipDir \<and> fst (SendFile e l r tr) \<noteq> Some SkipAll"
  using assms
  by (auto simp: SendFile_def writeNoSentinel_def Let_def split: sum.splits option.splits)

lemma specUpload_append:
  "specUpload e dbg rfp (xs @ ys) tr =
     (case specUpload e dbg rfp xs tr of
        (None, tr1) \<Rightarrow> specUpload e dbg rfp ys tr1
      | (Some err, tr1) \<Rightarrow> (Some err, tr1))"
  by (induction xs arbitrary: tr) (auto simp: Let_def split: prod.splits option.splits)

lemma walkFn_dir:
  "walkFn e dbg rfp p (Some True) werr tr =
     (Cont None, snd (specUpload e dbg rfp [(p, True)] tr))"
  by (simp add: walkFn_def Let_def split: option.splits)

lemma walkFn_file:
  "walkFn e dbg rfp p (Some False) werr tr =
     (Cont (fst (specUpload e dbg rfp [(p, False)] tr)),
      snd (specUpload e dbg rfp [(p, False)] tr))"
  by (simp add: walkFn_def Let_def split: option.splits prod.splits)

lemma specUpload_no_sentinel:
  assumes "writeNoSentinel e"
  shows "fst (specUpload e dbg rfp xs tr) \<noteq> Some SkipDir \<and>
         fst (specUpload e dbg rfp xs tr) \<noteq> Some SkipAll"
proof (induction xs arbitrary: tr)
  case Nil
  then show ?case by simp
next
  case (Cons ent xs)
  show ?case
    using Cons.IH SendFile_no_sentinel [OF assms, of "fst ent" "Join rfp (Base (fst ent))" tr]
    by (auto simp: Let_def split: prod.splits option.splits)
qed

lemma specUpload_dir_cons:
  "specUpload e dbg rfp ((p, True) # xs) tr =
     specUpload e dbg rfp xs (snd (specUpload e dbg rfp [(p, True)] tr))"
  by (simp add: Let_def)

lemma walk_refines:
  assumes w: "writeNoSentinel e"
  shows "walkDir (walkFn e dbg rfp) path node tr =
           (Cont (fst (specUpload e dbg rfp (preorder path node) tr)),
            snd (specUpload e dbg rfp (preorder path node) tr))"
    and "walkEntries (walkFn e dbg rfp) path dirs tr =
           (Cont (fst (specUpload e dbg rfp (preorderEntries path dirs) tr)),
            snd (specUpload e dbg rfp (preorderEntries path dirs) tr))"
proof (induction "walkFn e dbg rfp" path node tr and "walkFn e dbg rfp" path dirs tr
       rule: walkDir_walkEntries.induct)
  case (1 path tr)
  show ?case by (simp add: walkFn_file)
next
  case (2 path dirs rerr tr)
  let ?S = "\<lambda>xs t. specUpload e dbg rfp xs t"
  let ?t1 = "snd (?S [(path, True)] tr)"
  let ?t2 = "snd (?S [(path, True)] ?t1)"
  have one: "walkFn e dbg rfp path (Some True) None tr = (Cont None, ?t1)"
    by (rule walkFn_dir)
  show ?case
  proof (cases rerr)
    case None
    have ih: "walkEntries (walkFn e dbg rfp) path dirs ?t1 =
                (Cont (fst (?S (preorderEntries path dirs) ?t1)),
                 snd (?S (preorderEntries path dirs) ?t1))"
      using "2.hyps"(1) [OF one [symmetric] refl refl None] .
    have lhs: "walkDir (walkFn e dbg rfp) path (Dir dirs rerr) tr =
                 walkEntries (walkFn e dbg rfp) path dirs ?t1"
      using None one by (simp del: specUpload.simps)
    have pre: "preorder path (Dir dirs rerr) = (path, True) # preorderEntries path dirs"
      using None by simp
    have rhs: "?S (preorder path (Dir dirs rerr)) tr = ?S (preorderEntries path dirs) ?t1"
      unfolding pre by (rule specUpload_dir_cons)
    show ?thesis
      unfolding lhs rhs by (rule ih)
  next
    case (Some re)
    have two: "walkFn e dbg rfp path (Some True) (Some re) ?t1 = (Cont None, ?t2)"
      by (rule walkFn_dir)
    have ih: "walkEntries (walkFn e dbg rfp) path dirs ?t2 =
                (Cont (fst (?S (preorderEntries path dirs) ?t2)),
                 snd (?S (preorderEntries path dirs) ?t2))"
      using "2.hyps"(2) [OF one [symmetric] refl refl Some two [symmetric] refl refl] .
    have lhs: "walkDir (walkFn e dbg rfp) path (Dir dirs rerr) tr =
                 walkEntries (walkFn e dbg rfp) path dirs ?t2"
      using Some one two by (simp del: specUpload.simps)
    have pre: "preorder path (Dir dirs rerr) =
                 (path, True) # (path, True) # preorderEntries path dirs"
      using Some by simp
    have "?S ((path, True) # (path, True) # preorderEntries path dirs) tr =
            ?S ((path, True) # preorderEntries path dirs) ?t1"
      by (rule specUpload_dir_cons)
    also have "\<dots> = ?S (preorderEntries path dirs) ?t2"
      by (rule specUpload_dir_cons)
    finally have rhs: "?S (preorder path (Dir dirs rerr)) tr = ?S (preorderEntries path dirs) ?t2"
      unfolding pre .
    show ?thesis
      unfolding lhs rhs by (rule ih)
  qed
next
  case (3 path tr)
  show ?case by simp
next
  case (4 path d1 rest tr)
  let ?S = "\<lambda>xs t. specUpload e dbg rfp xs t"
  let ?xs = "preorder (Join path (fst d1)) (snd d1)"
  let ?ys = "preorderEntries path rest"
  have hd: "walkDir (walkFn e dbg rfp) (Join path (fst d1)) (snd d1) tr =
              (Cont (fst (?S ?xs tr)), snd (?S ?xs tr))"
    using "4.hyps"(1) .
  have ns: "fst (?S ?xs tr) \<noteq> Some SkipDir"
    using specUpload_no_sentinel [OF w] by blast
  have app: "?S (preorderEntries path (d1 # rest)) tr =
               (case ?S ?xs tr of
                  (None, tr1) \<Rightarrow> ?S ?ys tr1
                | (Some err, tr1) \<Rightarrow> (Some err, tr1))"
    by (simp add: specUpload_append del: specUpload.simps)
  show ?case
  proof (cases "fst (?S ?xs tr)")
    case None
    have ih: "walkEntries (walkFn e dbg rfp) path rest (snd (?S ?xs tr)) =
                (Cont (fst (?S ?ys (snd (?S ?xs tr)))), snd (?S ?ys (snd (?S ?xs tr))))"
      using "4.hyps"(2) [OF hd [symmetric] refl None] .
    have rhs: "?S (preorderEntries path (d1 # rest)) tr = ?S ?ys (snd (?S ?xs tr))"
      unfolding app using None by (cases "?S ?xs tr") simp
    have lhs: "walkEntries (walkFn e dbg rfp) path (d1 # rest) tr =
                 walkEntries (walkFn e dbg rfp) path rest (snd (?S ?xs tr))"
      using hd None by (simp del: specUpload.simps)
    show ?thesis
      unfolding lhs rhs by (rule ih)
  next
    case (Some err)
    have rhs: "?S (preorderEntries path (d1 # rest)) tr = (Some err, snd (?S ?xs tr))"
      unfolding app using Some by (cases "?S ?xs tr") simp
    have lhs: "walkEntries (walkFn e dbg rfp) path (d1 # rest) tr =
                 (Cont (Some err), snd (?S ?xs tr))"
      using hd Some ns by (simp del: specUpload.simps)
    show ?thesis
      unfolding lhs rhs by simp
  qed
qed

text \<open>
  C3. A recursive upload of an existing local tree does exactly what the loop
  \<open>specUpload\<close> does on the entries of the tree in pre-order: a directory whose remote
  creation fails is logged and the next entry is processed; the first file whose sending
  fails ends the walk, nothing after it is attempted, and its error is the fatal exit of
  the command.
\<close>

theorem recursive_upload_failure_policy:
  assumes "recursive f" and "isCopyToRemote ep"
    and "os_Lstat e (localFilePath ep) = Inr node"
    and "writeNoSentinel e"
  shows "transfer e f ep tr =
     (case specUpload e (debug f) (remoteFilePath ep) (preorder (localFilePath ep) node) tr of
        (None, tr1) \<Rightarrow> (Cont (), tr1)
      | (Some err, tr1) \<Rightarrow> (Fatal, tr1 @ [LogFatal [Err err]]))"
proof -
  let ?S = "specUpload e (debug f) (remoteFilePath ep) (preorder (localFilePath ep) node) tr"
  have walk: "walkDir (walkFn e (debug f) (remoteFilePath ep)) (localFilePath ep) node tr =
                (Cont (fst ?S), snd ?S)"
    using walk_refines(1) [OF assms(4)] .
  have ns: "fst ?S \<noteq> Some SkipDir \<and> fst ?S \<noteq> Some SkipAll"
    using specUpload_no_sentinel [OF assms(4)] .
  have W: "WalkDir e (walkFn e (debug f) (remoteFilePath ep)) (localFilePath ep) tr =
             (Cont (fst ?S), snd ?S)"
    using walk ns assms(3) by (cases "fst ?S") (simp_all add: WalkDir_def)
  show ?thesis
    using assms(1,2) W by (cases ?S; cases "fst ?S") (simp_all add: transfer_def)
qed

theorem recursive_upload_failure_policy_witness:
  "recursive recursiveFlags \<and> isCopyToRemote uploadA \<and>
   os_Lstat failEnv (localFilePath uploadA) = Inr treeA \<and> writeNoSentinel failEnv \<and>
   transfer failEnv recursiveFlags uploadA [] =
     (Fatal,
      [EvMkdir ''dest/a'' None,
       EvMkdir ''dest/b'' (Some denied), LogError denied,
       EvReadFile ''a/b/y.txt'' None, EvOpenFile ''dest/y.txt'' (Some denied),
       LogFatal [Err (Wrapf denied ''unable to open remote file dest/y.txt'')]])"
proof -
  have h1: "recursive recursiveFlags" by (simp add: recursiveFlags_def)
  have h2: "isCopyToRemote uploadA" by (simp add: uploadA_def)
  have h3: "os_Lstat failEnv (localFilePath uploadA) = Inr treeA"
    by (simp add: failEnv_def quietEnv_def uploadA_def)
  have h4: "writeNoSentinel failEnv"
    by (simp add: writeNoSentinel_def failEnv_def quietEnv_def)
  have ev: "specUpload failEnv False ''dest'' (preorder ''a'' treeA) [] =
     (Some (Wrapf denied ''unable to open remote file dest/y.txt''),
      [EvMkdir ''dest/a'' None,
       EvMkdir ''dest/b'' (Some denied), LogError denied,
       EvReadFile ''a/b/y.txt'' None, EvOpenFile ''dest/y.txt'' (Some denied)])"
    by (simp add: failEnv_def quietEnv_def treeA_def SendFile_def Join_def Base_def Clean_def
        Let_def)
  show ?thesis
    using h1 h2 h3 h4 recursive_upload_failure_policy [OF h1 h2 h3 h4, of "[]"] ev
    by (simp add: recursiveFlags_def uploadA_def)
qed

section \<open>The recursive upload on a missing source\<close>

text \<open>
  C10. When the local source of a recursive upload cannot be looked up, the walker calls
  the function with the nil entry and the error; the function reads \<^verbatim>\<open>IsDir\<close> of the nil
  entry whatever that error is, so the transfer panics, and nothing is logged or returned.
\<close>

theorem missing_source_panics:
  assumes "recursive f" and "isCopyToRemote ep"
    and "os_Lstat e (localFilePath ep) = Inl err"
  shows "transfer e f ep tr = (Panic, tr) \<and>
         walkFn e (debug f) (remoteFilePath ep) (localFilePath ep) None werr tr = (Panic, tr)"
  using assms by (simp add: transfer_def WalkDir_def walkFn_def)

theorem missing_source_panics_witness:
  "recursive recursiveFlags \<and> isCopyToRemote (uploadA\<lparr>localFilePath := ''missing''\<rparr>) \<and>
   os_Lstat quietEnv (localFilePath (uploadA\<lparr>localFilePath := ''missing''\<rparr>)) = Inl notExist \<and>
   transfer quietEnv recursiveFlags (uploadA\<lparr>localFilePath := ''missing''\<rparr>) [] = (Panic, [])"
proof -
  let ?ep = "uploadA\<lparr>localFilePath := ''missing''\<rparr>"
  have h1: "recursive recursiveFlags" by (simp add: recursiveFlags_def)
  have h2: "isCopyToRemote ?ep" by (simp add: uploadA_def)
  have h3: "os_Lstat quietEnv (localFilePath ?ep) = Inl notExist"
    by (simp add: quietEnv_def uploadA_def)
  show ?thesis
    using h1 h2 h3 missing_source_panics [OF h1 h2 h3, of "[]"] by simp
qed

section \<open>Evaluations of the command\<close>

text \<open>
  C1. The recursive upload of the tree \<^verbatim>\<open>a/\<close>, \<^verbatim>\<open>a/b/\<close>, \<^verbatim>\<open>a/b/y.txt\<close>, \<^verbatim>\<open>a/x.txt\<close> to
  \<^verbatim>\<open>dest\<close>, with nothing failing: every entry goes to \<^verbatim>\<open>dest\<close> joined with its base name,
  so the directories created are \<^verbatim>\<open>dest/a\<close> and \<^verbatim>\<open>dest/b\<close> and the files written are
  \<^verbatim>\<open>dest/y.txt\<close> and \<^verbatim>\<open>dest/x.txt\<close>.
\<close>

theorem recursive_upload_uses_base_names:
  "transfer quietEnv recursiveFlags uploadA [] =
     (Cont (),
      [EvMkdir ''dest/a'' None,
       EvMkdir ''dest/b'' None,
       EvReadFile ''a/b/y.txt'' None, EvOpenFile ''dest/y.txt'' None,
       EvWrite ''dest/y.txt'' ''data'' None, EvCloseFile ''dest/y.txt'',
       EvReadFile ''a/x.txt'' None, EvOpenFile ''dest/x.txt'' None,
       EvWrite ''dest/x.txt'' ''data'' None, EvCloseFile ''dest/x.txt''])"
  by (simp add: transfer_def WalkDir_def walkFn_def SendFile_def quietEnv_def recursiveFlags_def
      uploadA_def treeA_def Join_def Base_def Clean_def Let_def)

text \<open>
  C2. A remote argument without an at-sign: the target identity is the whole first
  argument of the command, which is the local path in an upload and the remote argument
  with its colon and path in a download.
\<close>

theorem target_identity_is_first_argument:
  "interpretArgs quietEnv ''./f.txt'' ''host1:/tmp/f.txt'' =
     (Cont \<lparr>username = ''bob'', targetIdentity = ''./f.txt'', remoteFilePath = ''/tmp/f.txt'',
            localFilePath = ''./f.txt'', isCopyToRemote = True\<rparr>, []) \<and>
   interpretArgs quietEnv ''host1:/tmp/f.txt'' ''./f.txt'' =
     (Cont \<lparr>username = ''bob'', targetIdentity = ''host1:/tmp/f.txt'',
            remoteFilePath = ''/tmp/f.txt'', localFilePath = ''./f.txt'',
            isCopyToRemote = False\<rparr>, [])"
  by (simp add: interpretArgs_def detectDirection_def parseRemote_def ContainsAny_def
      Contains_def index_def quietEnv_def Let_def)

text \<open>
  C4. A single-file upload of a local file that does not exist: \<^verbatim>\<open>SendFile\<close> returns an
  error, and the invocation returns normally with nothing logged.
\<close>

theorem single_upload_error_dropped:
  "fst (SendFile quietEnv ''missing.txt'' ''/tmp/x'' []) =
     Some (Wrapf notExist ''unable to read local file []'') \<and>
   Run quietEnv quietFlags ''missing.txt'' ''bob@host1:/tmp/x'' =
     (Returned,
      [EvDialService ''zssh'' ''host1'' None,
       EvReadFile ''/home/bob/.ssh/id_rsa'' None, EvParseKey None, EvAgentProbe None,
       EvSshDial ''bob'' [PublicKeys ''key''] None, EvNewClient None,
       EvReadFile ''missing.txt'' (Some notExist),
       EvCloseClient, EvCloseService])"
  by (simp add: Run_def defaultFlags_def interpretArgs_def detectDirection_def parseRemote_def
      session_def transfer_def Config_def resolveAuth_def sshAuthMethodFromFile_def
      NewSshConfigFactoryImpl_def SendFile_def ContainsAny_def Contains_def index_def
      quietEnv_def quietFlags_def ExpectedServiceAndExeName_def Join3_def Join_def Clean_def
      Let_def)

text \<open>
  C5. A recursive upload in which the stream and the client have been opened and the
  sending of a file then fails: the process exits through the fatal log of the walk's
  error, and neither the client nor the stream is closed.
\<close>

theorem fatal_exit_skips_deferred_closes:
  "Run failEnv recursiveFlags ''a'' ''bob@host1:dest'' =
     (Exit1,
      [EvDialService ''zssh'' ''host1'' None,
       EvReadFile ''/home/bob/.ssh/id_rsa'' None, EvParseKey None, EvAgentProbe None,
       EvSshDial ''bob'' [PublicKeys ''key''] None, EvNewClient None,
       EvMkdir ''dest/a'' None,
       EvMkdir ''dest/b'' (Some denied), LogError denied,
       EvReadFile ''a/b/y.txt'' None, EvOpenFile ''dest/y.txt'' (Some denied),
       LogFatal [Err (Wrapf denied ''unable to open remote file dest/y.txt'')]])"
  by (simp add: Run_def defaultFlags_def interpretArgs_def detectDirection_def parseRemote_def
      session_def transfer_def WalkDir_def walkFn_def Config_def resolveAuth_def
      sshAuthMethodFromFile_def NewSshConfigFactoryImpl_def SendFile_def ContainsAny_def
      Contains_def index_def failEnv_def quietEnv_def recursiveFlags_def treeA_def
      ExpectedServiceAndExeName_def Join_def Base_def Clean_def Let_def)

text \<open>
  C6. A key file that holds no key: the parser's error is a plain error with the text
  \<^verbatim>\<open>ssh: no key found\<close>, which is not the text the function compares with, and the type
  assertion that follows panics.
\<close>

theorem no_key_found_panics:
  "sshAuthMethodFromFile noKeyEnv ''/home/bob/.ssh/id_rsa'' [] =
     (Panic,
      [EvReadFile ''/home/bob/.ssh/id_rsa'' None,
       EvParseKey (Some (ErrorString ''ssh: no key found''))])"
  by (simp add: sshAuthMethodFromFile_def noKeyEnv_def quietEnv_def Let_def)

text \<open>
  C7. With a key agent running, the first call of \<^verbatim>\<open>Config\<close> probes the agent twice; a
  second call on the resulting factory gives the same methods and no further effect.
\<close>

theorem agent_probed_twice:
  "Config agentEnv (NewSshConfigFactoryImpl ''bob'' ''/home/bob/.ssh/id_rsa'') [] =
     (Cont (\<lparr>User = ''bob'', Auth = [PublicKeys ''key'', AgentKeys ''agent'']\<rparr>,
            \<lparr>user = ''bob'', host = [], port = 22, keyPath = ''/home/bob/.ssh/id_rsa'',
             resolveAuthOnce = True,
             authMethods = [PublicKeys ''key'', AgentKeys ''agent'']\<rparr>),
      [EvReadFile ''/home/bob/.ssh/id_rsa'' None, EvParseKey None,
       EvAgentProbe (Some (AgentKeys ''agent'')),
       EvAgentProbe (Some (AgentKeys ''agent''))]) \<and>
   Config agentEnv
     \<lparr>user = ''bob'', host = [], port = 22, keyPath = ''/home/bob/.ssh/id_rsa'',
      resolveAuthOnce = True, authMethods = [PublicKeys ''key'', AgentKeys ''agent'']\<rparr> tr =
     (Cont (\<lparr>User = ''bob'', Auth = [PublicKeys ''key'', AgentKeys ''agent'']\<rparr>,
            \<lparr>user = ''bob'', host = [], port = 22, keyPath = ''/home/bob/.ssh/id_rsa'',
             resolveAuthOnce = True,
             authMethods = [PublicKeys ''key'', AgentKeys ''agent'']\<rparr>),
      tr)"
  by (simp add: Config_def resolveAuth_def sshAuthMethodFromFile_def
      NewSshConfigFactoryImpl_def agentEnv_def quietEnv_def Let_def)

text \<open>
  C8. A single-file upload to a blank remote path: \<^verbatim>\<open>AppendBaseName\<close> would give the
  destination \<^verbatim>\<open>notes.txt\<close>, and \<^verbatim>\<open>/incoming/notes.txt\<close> for the remote directory, but
  the command opens the remote path as it was given.
\<close>

theorem single_upload_skips_inference:
  "fst (AppendBaseName quietEnv [] ''notes.txt'' False []) = ''notes.txt'' \<and>
   fst (AppendBaseName quietEnv ''/incoming'' ''notes.txt'' False []) = ''/incoming/notes.txt'' \<and>
   Run quietEnv quietFlags ''notes.txt'' ''bob@host1:'' =
     (Returned,
      [EvDialService ''zssh'' ''host1'' None,
       EvReadFile ''/home/bob/.ssh/id_rsa'' None, EvParseKey None, EvAgentProbe None,
       EvSshDial ''bob'' [PublicKeys ''key''] None, EvNewClient None,
       EvReadFile ''notes.txt'' None, EvOpenFile [] (Some notExist),
       EvCloseClient, EvCloseService]) \<and>
   Run quietEnv quietFlags ''notes.txt'' ''bob@host1:/incoming'' =
     (Returned,
      [EvDialService ''zssh'' ''host1'' None,
       EvReadFile ''/home/bob/.ssh/id_rsa'' None, EvParseKey None, EvAgentProbe None,
       EvSshDial ''bob'' [PublicKeys ''key''] None, EvNewClient None,
       EvReadFile ''notes.txt'' None, EvOpenFile ''/incoming'' (Some notExist),
       EvCloseClient, EvCloseService])"
  by (simp add: Run_def defaultFlags_def interpretArgs_def detectDirection_def parseRemote_def
      session_def transfer_def Config_def resolveAuth_def sshAuthMethodFromFile_def
      NewSshConfigFactoryImpl_def SendFile_def AppendBaseName_def ContainsAny_def Contains_def
      index_def quietEnv_def quietFlags_def ExpectedServiceAndExeName_def Join3_def Join_def
      Base_def Clean_def Let_def)

end
